theory Spec2Isabelle
  imports Main "HOL-Library.Word" "HOL-Library.Sublist"
begin

unbundle bit_operations_syntax

section \<open>Nickname generation (app/utils/nickname\_gen.py)\<close>

text \<open>
  \<open>generate_nickname\<close> draws three random values: two calls of \<open>random.choice\<close> and one
  \<open>uuid.uuid4()\<close>. Each draw is an explicit argument of the model: a natural number for
  the entropy behind each \<open>random.choice\<close>, and the 128 random bits behind the UUID.
\<close>

datatype py_error = IndexError

text \<open>
  \<open>random.choice(seq)\<close> raises \<open>IndexError\<close> on an empty sequence and otherwise returns
  \<open>seq[randbelow(len(seq))]\<close>; the entropy \<open>r\<close> is reduced below the length.
\<close>

definition random_choice :: "nat \<Rightarrow> 'a list \<Rightarrow> py_error + 'a" where
  "random_choice r seq = (if seq = [] then Inl IndexError else Inr (seq ! (r mod length seq)))"

text \<open>
  \<open>uuid.uuid4()\<close> takes 16 random bytes as a 128-bit integer and overwrites the variant
  bits (the two bits at position 62) with binary 10 and the version bits (the four bits at
  position 76) with 4.
\<close>

definition uuid4 :: "128 word \<Rightarrow> 128 word" where
  "uuid4 r =
     (let i = (r AND NOT (push_bit 48 0xc000)) OR push_bit 48 0x8000
      in (i AND NOT (push_bit 64 0xf000)) OR push_bit 76 4)"

definition hex_digits :: string where
  "hex_digits = ''0123456789abcdef''"

definition hex_char :: "nat \<Rightarrow> char" where
  "hex_char n = hex_digits ! (n mod 16)"

text \<open>\<open>UUID.hex\<close> is \<open>'%032x' % self.int\<close>: 32 lowercase hexadecimal digits, the most
  significant nibble first.\<close>

definition uuid_hex :: "128 word \<Rightarrow> string" where
  "uuid_hex w = map (\<lambda>k. hex_char (unat (drop_bit (4 * (31 - k)) w AND 15))) [0..<32]"

definition adjectives :: "string list" where
  "adjectives = [''clever'', ''jolly'', ''brave'', ''sly'', ''gentle'']"

definition animals :: "string list" where
  "animals = [''panda'', ''fox'', ''raccoon'', ''koala'', ''lion'']"

text \<open>
  The f-string evaluates its fields from left to right, after \<open>unique_id\<close> has been
  computed; an \<open>IndexError\<close> of either choice would leave the function.
\<close>

definition generate_nickname :: "nat \<Rightarrow> nat \<Rightarrow> 128 word \<Rightarrow> py_error + string" where
  "generate_nickname r1 r2 rbits =
     (let unique_id = take 6 (uuid_hex (uuid4 rbits)) in
      case random_choice r1 adjectives of
        Inl e \<Rightarrow> Inl e
      | Inr adjective \<Rightarrow>
          (case random_choice r2 animals of
             Inl e \<Rightarrow> Inl e
           | Inr animal \<Rightarrow> Inr (adjective @ ''_'' @ animal @ ''_'' @ unique_id)))"

section \<open>The user table and the collaborators of the service\<close>

text \<open>
  Modelled from the spec: the role enumeration of \<open>app/models/user_model.py\<close>, which is
  not among the sources. Section 3 of the specification lists the roles ADMIN,
  AUTHENTICATED and ANONYMOUS; these are also the three members the service names.
\<close>

datatype UserRole = ANONYMOUS | AUTHENTICATED | ADMIN

text \<open>The column stores a role by its name; \<open>cast(User.role, String)\<close> reads that name.\<close>

fun role_name :: "UserRole \<Rightarrow> string" where
  "role_name ANONYMOUS = ''ANONYMOUS''"
| "role_name AUTHENTICATED = ''AUTHENTICATED''"
| "role_name ADMIN = ''ADMIN''"

text \<open>
  Modelled from the spec: the \<open>User\<close> row of \<open>app/models/user_model.py\<close>, which is not
  among the sources. The fields are those of section 3 of the specification together with
  the columns the service reads (\<open>status\<close>, \<open>registration_date\<close>). Nullable columns are
  options, timestamps are integers, the identifier is a 128-bit UUID.
\<close>

record user =
  user_id :: "128 word"
  nickname :: string
  email :: string
  first_name :: "string option"
  last_name :: "string option"
  hashed_password :: string
  role :: UserRole
  status :: "string option"
  registration_date :: int
  email_verified :: bool
  verification_token :: "string option"
  failed_login_attempts :: int
  is_locked :: bool
  last_login_at :: "int option"

text \<open>
  Modelled from the spec: the payload that \<open>UserCreate(**user_data).model_dump()\<close> yields
  (\<open>app/schemas/user_schemas.py\<close> is not among the sources): the email, the password and
  the optional profile names of section 3.
\<close>

record user_create =
  uc_email :: string
  uc_password :: string
  uc_first_name :: "string option"
  uc_last_name :: "string option"

text \<open>
  The collaborators of section 6 of the specification, none of which is among the sources,
  are parameters of the model:
  \<^item> \<open>max_login_attempts\<close>: the value of \<open>settings.max_login_attempts\<close>;
  \<^item> \<open>hash_password\<close>: the password hasher, with the entropy of its salt as first argument;
  \<^item> \<open>verify_password\<close>: the verifier, applied to a password and a stored hash;
  \<^item> \<open>UserCreate\<close>: the validation of a registration payload, \<open>None\<close> when it raises;
  \<^item> \<open>UserLogin\<close>: whether the validation of a login request passes;
  \<^item> \<open>send_verification_email\<close>: whether sending the email returns without raising.
\<close>

record env =
  max_login_attempts :: int
  hash_password :: "nat \<Rightarrow> string \<Rightarrow> string"
  verify_password :: "string \<Rightarrow> string \<Rightarrow> bool"
  UserCreate :: "user_create \<Rightarrow> user_create option"
  UserLogin :: "string \<Rightarrow> string \<Rightarrow> bool"
  send_verification_email :: "user \<Rightarrow> bool"

text \<open>
  The random and clock values that one call of \<open>create\<close> consumes: the salt of the hash,
  the three draws of \<open>generate_nickname\<close>, the output of \<open>generate_verification_token\<close>,
  the identifier of the new row and the time of registration.
\<close>

record draws =
  salt :: nat
  choice1 :: nat
  choice2 :: nat
  nick_bits :: "128 word"
  token :: string
  new_id :: "128 word"
  now :: int

text \<open>
  The session is the table: the list of its rows. The service is sequential and every
  operation commits before it returns, so the rows are the whole state. A store that is
  unavailable is not modelled.
\<close>

type_synonym session = "user list"

text \<open>\<open>_fetch_user\<close>: \<open>select(User).filter_by(...)\<close>, then \<open>scalars().first()\<close>.\<close>

definition fetch_user :: "session \<Rightarrow> (user \<Rightarrow> bool) \<Rightarrow> user option" where
  "fetch_user session filters = find filters session"

definition get_by_id :: "session \<Rightarrow> 128 word \<Rightarrow> user option" where
  "get_by_id session uid = fetch_user session (\<lambda>u. user_id u = uid)"

definition get_by_nickname :: "session \<Rightarrow> string \<Rightarrow> user option" where
  "get_by_nickname session nick = fetch_user session (\<lambda>u. nickname u = nick)"

definition get_by_email :: "session \<Rightarrow> string \<Rightarrow> user option" where
  "get_by_email session e = fetch_user session (\<lambda>u. email u = e)"

text \<open>
  \<open>session.add(user); await session.commit()\<close> for a row that was fetched before: the
  row with the primary key of \<open>user\<close> is updated.
\<close>

definition update_commit :: "session \<Rightarrow> user \<Rightarrow> session" where
  "update_commit session u = map (\<lambda>x. if user_id x = user_id u then u else x) session"

text \<open>
  Modelled from the spec: \<open>session.add(new_user); await session.commit()\<close> for a new row,
  under the uniqueness constraints of the missing table (section 3: the identifier, the
  email and the nickname are unique). A violation is the \<open>SQLAlchemyError\<close> of the commit,
  \<open>None\<close> here.
\<close>

definition insert_commit :: "session \<Rightarrow> user \<Rightarrow> session option" where
  "insert_commit session u =
     (if list_ex (\<lambda>x. user_id x = user_id u \<or> email x = email u \<or> nickname x = nickname u) session
      then None else Some (session @ [u]))"

text \<open>
  Modelled from the spec: the constructor \<open>User(**validated_data)\<close> with the column
  defaults of the missing model. Section 3: a registered account starts unverified, without
  a token, unlocked, with failed-login counter 0 and no login time.
\<close>

definition User :: "user_create \<Rightarrow> string \<Rightarrow> 128 word \<Rightarrow> int \<Rightarrow> user" where
  "User validated_data hashed uid t =
     \<lparr>user_id = uid, nickname = [], email = uc_email validated_data,
      first_name = uc_first_name validated_data, last_name = uc_last_name validated_data,
      hashed_password = hashed, role = ANONYMOUS, status = None, registration_date = t,
      email_verified = False, verification_token = None, failed_login_attempts = 0,
      is_locked = False, last_login_at = None\<rparr>"

section \<open>Filters of the queries\<close>

text \<open>
  \<open>if first_name:\<close> on an \<open>Optional[str]\<close>: the filter applies when the argument is
  neither \<open>None\<close> nor the empty string.
\<close>

definition where_str :: "string option \<Rightarrow> (string \<Rightarrow> bool) \<Rightarrow> bool" where
  "where_str arg cond = (case arg of None \<Rightarrow> True | Some s \<Rightarrow> if s = [] then True else cond s)"

text \<open>\<open>if registration_date:\<close> on an \<open>Optional[datetime]\<close>: every datetime is truthy.\<close>

definition where_date :: "int option \<Rightarrow> (int \<Rightarrow> bool) \<Rightarrow> bool" where
  "where_date arg cond = (case arg of None \<Rightarrow> True | Some d \<Rightarrow> cond d)"

text \<open>
  \<open>column.contains(s)\<close> and \<open>column == s\<close> on a nullable text column: a NULL column
  satisfies neither. Containment is that of substrings, as the specification has it; the
  wildcard reading that SQL's LIKE gives to \<open>%\<close> and \<open>_\<close> inside \<open>s\<close> is not modelled.
\<close>

definition col_contains :: "string option \<Rightarrow> string \<Rightarrow> bool" where
  "col_contains col s = (case col of None \<Rightarrow> False | Some v \<Rightarrow> sublist s v)"

definition col_eq :: "string option \<Rightarrow> string \<Rightarrow> bool" where
  "col_eq col s = (case col of None \<Rightarrow> False | Some v \<Rightarrow> v = s)"

text \<open>
  \<open>list_users\<close>. The order of the rows is that of the table; \<open>offset\<close> and \<open>limit\<close>
  apply to the rows that pass the filters.
\<close>

definition list_users ::
  "session \<Rightarrow> nat \<Rightarrow> nat \<Rightarrow> string option \<Rightarrow> string option \<Rightarrow> string option \<Rightarrow> string option
     \<Rightarrow> string option \<Rightarrow> int option \<Rightarrow> user list" where
  "list_users session skip limit first_name' last_name' email' role' status' registration_date' =
     take limit (drop skip (filter (\<lambda>u.
         where_str first_name' (\<lambda>s. col_contains (first_name u) s)
       \<and> where_str last_name' (\<lambda>s. col_contains (last_name u) s)
       \<and> where_str email' (\<lambda>s. sublist s (email u))
       \<and> where_str role' (\<lambda>s. sublist s (role_name (role u)))
       \<and> where_str status' (\<lambda>s. col_eq (status u) s)
       \<and> where_date registration_date' (\<lambda>d. registration_date u \<ge> d)) session))"

text \<open>
  Python's \<open>int(search)\<close> on a string of ASCII characters: surrounding whitespace is
  stripped, one sign is allowed, then decimal digits, with single underscores between
  digits; anything else is the \<open>ValueError\<close>, \<open>None\<close> here. Digits outside ASCII and the
  interpreter's limit on the number of digits are not modelled.
\<close>

definition is_space :: "char \<Rightarrow> bool" where
  "is_space c = (of_char c \<in> set [9, 10, 11, 12, 13, 28, 29, 30, 31, 32 :: nat])"

definition is_digit :: "char \<Rightarrow> bool" where
  "is_digit c = (c \<in> set ''0123456789'')"

definition digit_val :: "char \<Rightarrow> nat" where
  "digit_val c = of_char c - 48"

definition strip :: "string \<Rightarrow> string" where
  "strip s = rev (dropWhile is_space (rev (dropWhile is_space s)))"

fun parse_digits :: "nat \<Rightarrow> string \<Rightarrow> nat option" where
  "parse_digits acc [] = Some acc"
| "parse_digits acc [c] = (if is_digit c then Some (10 * acc + digit_val c) else None)"
| "parse_digits acc (c # d # ds) =
     (if is_digit c then parse_digits (10 * acc + digit_val c) (d # ds)
      else if c = CHR ''_'' \<and> is_digit d then parse_digits (10 * acc + digit_val d) ds
      else None)"

definition py_int :: "string \<Rightarrow> int option" where
  "py_int s =
     (case strip s of
        [] \<Rightarrow> None
      | c # cs \<Rightarrow>
          (let neg = (c = CHR ''-'');
               body = (if c = CHR ''-'' \<or> c = CHR ''+'' then cs else c # cs)
           in case body of
                [] \<Rightarrow> None
              | d # ds \<Rightarrow>
                  if is_digit d
                  then map_option (\<lambda>n. if neg then - int n else int n) (parse_digits (digit_val d) ds)
                  else None))"

text \<open>
  \<open>count\<close>. The search clause is a disjunction; the remaining filters compare for
  equality. \<open>User.id == search_int\<close> compares the identifier, read as an integer.
\<close>

definition count ::
  "session \<Rightarrow> string option \<Rightarrow> string option \<Rightarrow> string option \<Rightarrow> string option \<Rightarrow> string option
     \<Rightarrow> string option \<Rightarrow> int option \<Rightarrow> nat" where
  "count session search first_name' last_name' email' role' status' registration_date' =
     length (filter (\<lambda>u.
         where_str search (\<lambda>s.
           (case py_int s of
              Some search_int \<Rightarrow>
                uint (user_id u) = search_int \<or> sublist s (email u) \<or> sublist s (role_name (role u))
                \<or> col_contains (first_name u) s \<or> col_contains (last_name u) s
            | None \<Rightarrow>
                sublist s (email u) \<or> sublist s (role_name (role u))
                \<or> col_contains (first_name u) s \<or> col_contains (last_name u) s))
       \<and> where_str first_name' (\<lambda>s. col_eq (first_name u) s)
       \<and> where_str last_name' (\<lambda>s. col_eq (last_name u) s)
       \<and> where_str email' (\<lambda>s. email u = s)
       \<and> where_str role' (\<lambda>s. role_name (role u) = s)
       \<and> where_str status' (\<lambda>s. col_eq (status u) s)
       \<and> where_date registration_date' (\<lambda>d. registration_date u \<ge> d)) session)"

section \<open>The operations of the service\<close>

text \<open>
  Every operation takes the session and returns its result together with the session
  after it. \<open>create\<close>: a \<open>ValidationError\<close>, an \<open>IndexError\<close> of the nickname generator
  and a failure of the email sender are caught by \<open>except Exception\<close>, a failed commit by
  \<open>except SQLAlchemyError\<close>; all return \<open>None\<close>. The email is sent after the commit, so
  a sender that raises leaves the new row in the table.
\<close>

definition create :: "env \<Rightarrow> draws \<Rightarrow> session \<Rightarrow> user_create \<Rightarrow> user option \<times> session" where
  "create env rnd session user_data =
     (case UserCreate env user_data of
        None \<Rightarrow> (None, session)
      | Some validated_data \<Rightarrow>
          (case get_by_email session (uc_email validated_data) of
             Some existing_user \<Rightarrow> (None, session)
           | None \<Rightarrow>
               (let hashed = hash_password env (salt rnd) (uc_password validated_data);
                    new_user = User validated_data hashed (new_id rnd) (now rnd)
                in case generate_nickname (choice1 rnd) (choice2 rnd) (nick_bits rnd) of
                     Inl e \<Rightarrow> (None, session)
                   | Inr nick \<Rightarrow>
                       (let new_user = new_user\<lparr>nickname := nick\<rparr>;
                            user_count = count session None None None None None None None;
                            new_user = new_user\<lparr>role := (if user_count = 0 then ADMIN else ANONYMOUS)\<rparr>;
                            new_user = (if role new_user = ADMIN
                                        then new_user\<lparr>email_verified := True\<rparr>
                                        else new_user\<lparr>verification_token := Some (token rnd)\<rparr>)
                        in case insert_commit session new_user of
                             None \<Rightarrow> (None, session)
                           | Some session' \<Rightarrow>
                               if send_verification_email env new_user
                               then (Some new_user, session')
                               else (None, session')))))"

definition register_user :: "env \<Rightarrow> draws \<Rightarrow> session \<Rightarrow> user_create \<Rightarrow> user option \<times> session" where
  "register_user env rnd session user_data = create env rnd session user_data"

text \<open>\<open>login_user\<close>; \<open>t\<close> is the value of \<open>datetime.now(timezone.utc)\<close>.\<close>

definition login_user :: "env \<Rightarrow> int \<Rightarrow> session \<Rightarrow> string \<Rightarrow> string \<Rightarrow> user option \<times> session" where
  "login_user env t session email' password =
     (if \<not> UserLogin env email' password then (None, session)
      else case get_by_email session email' of
        None \<Rightarrow> (None, session)
      | Some user \<Rightarrow>
          if \<not> email_verified user then (None, session)
          else if is_locked user then (None, session)
          else if verify_password env password (hashed_password user) then
            (let user = user\<lparr>failed_login_attempts := 0, last_login_at := Some t\<rparr>
             in (Some user, update_commit session user))
          else
            (let user = user\<lparr>failed_login_attempts := failed_login_attempts user + 1\<rparr>;
                 user = (if failed_login_attempts user \<ge> max_login_attempts env
                         then user\<lparr>is_locked := True\<rparr> else user)
             in (None, update_commit session user)))"

definition is_account_locked :: "session \<Rightarrow> string \<Rightarrow> bool" where
  "is_account_locked session email' =
     (case get_by_email session email' of Some user \<Rightarrow> is_locked user | None \<Rightarrow> False)"

definition reset_password :: "env \<Rightarrow> nat \<Rightarrow> session \<Rightarrow> 128 word \<Rightarrow> string \<Rightarrow> bool \<times> session" where
  "reset_password env slt session uid new_password =
     (let hashed_password' = hash_password env slt new_password
      in case get_by_id session uid of
           Some user \<Rightarrow>
             (True, update_commit session
                (user\<lparr>hashed_password := hashed_password', failed_login_attempts := 0,
                      is_locked := False\<rparr>))
         | None \<Rightarrow> (False, session))"

definition verify_email_with_token :: "session \<Rightarrow> 128 word \<Rightarrow> string \<Rightarrow> bool \<times> session" where
  "verify_email_with_token session uid tok =
     (case get_by_id session uid of
        None \<Rightarrow> (False, session)
      | Some user \<Rightarrow>
          if verification_token user \<noteq> Some tok then (False, session)
          else (True, update_commit session
                  (user\<lparr>email_verified := True, verification_token := None,
                        role := AUTHENTICATED\<rparr>)))"

definition unlock_user_account :: "session \<Rightarrow> 128 word \<Rightarrow> bool \<times> session" where
  "unlock_user_account session uid =
     (case get_by_id session uid of
        Some user \<Rightarrow>
          if is_locked user
          then (True, update_commit session (user\<lparr>is_locked := False, failed_login_attempts := 0\<rparr>))
          else (False, session)
      | None \<Rightarrow> (False, session))"

section \<open>Sequences of operations on an account\<close>

text \<open>
  The requests that act on the failed-login counter and the locked flag of an existing
  account, each with the arguments of its call, and the table after a sequence of them.
\<close>

datatype operation =
    Login int string string
  | ResetPassword nat "128 word" string
  | VerifyEmail "128 word" string
  | Unlock "128 word"

text \<open>
  The invariant of the counter that every one of these operations maintains: the counter is
  at most the maximum, and below it while the account is unlocked.
\<close>

definition counter_ok :: "env \<Rightarrow> user \<Rightarrow> bool" where
  "counter_ok env u =
     (failed_login_attempts u \<le> max_login_attempts env
      \<and> (is_locked u \<or> failed_login_attempts u < max_login_attempts env))"

fun apply_operation :: "env \<Rightarrow> session \<Rightarrow> operation \<Rightarrow> session" where
  "apply_operation env session (Login t e pw) = snd (login_user env t session e pw)"
| "apply_operation env session (ResetPassword slt uid pw) = snd (reset_password env slt session uid pw)"
| "apply_operation env session (VerifyEmail uid tok) = snd (verify_email_with_token session uid tok)"
| "apply_operation env session (Unlock uid) = snd (unlock_user_account session uid)"

fun run_operations :: "env \<Rightarrow> session \<Rightarrow> operation list \<Rightarrow> session" where
  "run_operations env session [] = session"
| "run_operations env session (op # ops) = run_operations env (apply_operation env session op) ops"

section \<open>A concrete deployment\<close>

text \<open>
  An instance of the collaborators and a table of two accounts, on which the operations
  are evaluated: at most three failed logins, a toy hasher that reverses the password, an
  email check that asks for an \<open>@\<close>, and an email sender that never raises. Alice is the
  verified administrator with password \<open>secret\<close>; Bob has registered with password
  \<open>password\<close> and has not verified his email yet.
\<close>

definition ex_env :: env where
  "ex_env =
     \<lparr>max_login_attempts = 3,
      hash_password = (\<lambda>n p. rev p),
      verify_password = (\<lambda>p h. h = rev p),
      UserCreate = (\<lambda>d. if CHR ''@'' \<in> set (uc_email d) then Some d else None),
      UserLogin = (\<lambda>e p. CHR ''@'' \<in> set e),
      send_verification_email = (\<lambda>u. True)\<rparr>"

definition ex_alice :: user where
  "ex_alice =
     \<lparr>user_id = 1, nickname = ''clever_fox_0a1b2c'', email = ''alice@example.com'',
      first_name = Some ''Alice'', last_name = Some ''Jones'', hashed_password = ''terces'',
      role = ADMIN, status = None, registration_date = 100, email_verified = True,
      verification_token = None, failed_login_attempts = 0, is_locked = False,
      last_login_at = None\<rparr>"

definition ex_bob :: user where
  "ex_bob =
     \<lparr>user_id = 2, nickname = ''sly_lion_ffee00'', email = ''bob@example.com'',
      first_name = Some ''Bob'', last_name = None, hashed_password = ''drowssap'',
      role = ANONYMOUS, status = None, registration_date = 200, email_verified = False,
      verification_token = Some ''tok-bob'', failed_login_attempts = 0, is_locked = False,
      last_login_at = None\<rparr>"

definition ex_session :: session where
  "ex_session = [ex_alice, ex_bob]"

definition ex_draws :: draws where
  "ex_draws =
     \<lparr>salt = 7, choice1 = 2, choice2 = 6, nick_bits = 0x0a1b2c00000000000000000000000000, token = ''tok-carol'',
      new_id = 3, now = 300\<rparr>"

definition ex_carol :: user_create where
  "ex_carol =
     \<lparr>uc_email = ''carol@example.com'', uc_password = ''hunter2'',
      uc_first_name = Some ''Carol'', uc_last_name = None\<rparr>"

section \<open>Properties of nickname generation\<close>

lemma random_choice_mem:
  "seq \<noteq> [] \<Longrightarrow> \<exists>x. random_choice r seq = Inr x \<and> x \<in> set seq"
  by (simp add: random_choice_def)

lemma hex_char_mem: "hex_char n \<in> set hex_digits"
proof -
  have "n mod 16 < length hex_digits" by (simp add: hex_digits_def)
  then show ?thesis unfolding hex_char_def by (rule nth_mem)
qed

lemma uuid_hex_length: "length (uuid_hex w) = 32"
  by (simp add: uuid_hex_def)

lemma uuid_hex_chars: "list_all (\<lambda>c. c \<in> set hex_digits) (uuid_hex w)"
  by (simp add: uuid_hex_def list_all_iff hex_char_mem)

lemma unique_id_shape:
  "length (take 6 (uuid_hex w)) = 6 \<and> list_all (\<lambda>c. c \<in> set hex_digits) (take 6 (uuid_hex w))"
proof
  show "length (take 6 (uuid_hex w)) = 6" by (simp add: uuid_hex_length)
next
  have "set (take 6 (uuid_hex w)) \<subseteq> set (uuid_hex w)" by (rule set_take_subset)
  with uuid_hex_chars [of w] show "list_all (\<lambda>c. c \<in> set hex_digits) (take 6 (uuid_hex w))"
    by (auto simp: list_all_iff)
qed

text \<open>
  C10. Whatever the three random draws are, \<open>generate_nickname\<close> returns (it does not
  raise) a string \<open>adjective_animal_suffix\<close> whose adjective is one of the five adjectives,
  whose animal is one of the five animals and whose suffix is exactly six characters, each a
  lowercase hexadecimal digit; the result is not the empty string.
\<close>

theorem generate_nickname_shape:
  "\<exists>adjective animal suffix.
     generate_nickname r1 r2 rbits = Inr (adjective @ ''_'' @ animal @ ''_'' @ suffix)
     \<and> adjective \<in> set [''clever'', ''jolly'', ''brave'', ''sly'', ''gentle'']
     \<and> animal \<in> set [''panda'', ''fox'', ''raccoon'', ''koala'', ''lion'']
     \<and> length suffix = 6
     \<and> list_all (\<lambda>c. c \<in> set ''0123456789abcdef'') suffix
     \<and> adjective @ ''_'' @ animal @ ''_'' @ suffix \<noteq> []"
proof -
  obtain a where a: "random_choice r1 adjectives = Inr a" "a \<in> set adjectives"
    using random_choice_mem [of adjectives r1] by (auto simp: adjectives_def)
  obtain b where b: "random_choice r2 animals = Inr b" "b \<in> set animals"
    using random_choice_mem [of animals r2] by (auto simp: animals_def)
  define s where "s = take 6 (uuid_hex (uuid4 rbits))"
  have s: "length s = 6" "list_all (\<lambda>c. c \<in> set hex_digits) s"
    using unique_id_shape [of "uuid4 rbits"] by (simp_all add: s_def)
  have "generate_nickname r1 r2 rbits = Inr (a @ ''_'' @ b @ ''_'' @ s)"
    by (simp add: generate_nickname_def a(1) b(1) s_def)
  moreover have "a \<in> set [''clever'', ''jolly'', ''brave'', ''sly'', ''gentle'']"
    using a(2) by (simp only: adjectives_def)
  moreover have "b \<in> set [''panda'', ''fox'', ''raccoon'', ''koala'', ''lion'']"
    using b(2) by (simp only: animals_def)
  moreover have "list_all (\<lambda>c. c \<in> set ''0123456789abcdef'') s"
    using s(2) by (simp only: hex_digits_def)
  moreover have "a @ ''_'' @ b @ ''_'' @ s \<noteq> []" by simp
  ultimately show ?thesis using s(1) by blast
qed

end
